theory Spec2Isabelle
  imports Complex_Main
begin

section \<open>The Binance price server: a model of \<^verbatim>\<open>src/index.ts\<close>\<close>

text \<open>
  The server registers four tools and answers tool invocations; each handler sends one
  HTTP GET to the exchange and formats the reply as text. The model below follows
  \<^verbatim>\<open>src/index.ts\<close> function by function.

  \<^item> JavaScript values are the datatype \<open>jsval\<close>; the values that reach the program
    (tool arguments, response bodies) come from JSON, plus \<open>undefined\<close> for a missing
    property.
  \<^item> An exception is a value of type \<open>thrown\<close>; a computation that may throw returns
    \<open>thrown + 'a\<close>, \<open>Inl\<close> being the exception.
  \<^item> The exchange is a function from the outbound request to the outcome of
    \<^verbatim>\<open>axios.get\<close>; a handler returns the requests it has sent together with its result.
  \<^item> What ECMAScript leaves to the implementation or to the locale (the wording of
    engine-raised errors, \<^verbatim>\<open>toLocaleString\<close>, \<^verbatim>\<open>Date.parse\<close> on free-form text) is
    a field of the record \<open>host\<close>, a parameter of every function that needs it.

  Numbers: a finite number is an exact rational. Rounding to binary64, overflow to
  infinity and the sign of zero are not represented; infinities and NaN are, with
  their IEEE rules. Strings are byte strings (UTF-8); \<^verbatim>\<open>toUpperCase\<close> and white space
  are those of ASCII.
\<close>

subsection \<open>Values, exceptions, the host\<close>

datatype jsnum = NaN | PosInf | NegInf | Fin rat

datatype jsval =
    JUndefined
  | JNull
  | JBool bool
  | JNum jsnum
  | JStr string
  | JArr "jsval list"
  | JObj "(string \<times> jsval) list"

text \<open>
  Errors raised by the engine itself. The first argument names the expression as the
  source writes it.
\<close>

datatype fault =
    ReadOfNullish string string
  | NotAFunction string
  | NotIterable string
  | InvalidTimeValue
  | NoPrimitiveValue

text \<open>
  \<open>JsError m\<close> is \<^verbatim>\<open>new Error(m)\<close>; \<open>EngineError f\<close> is a \<^verbatim>\<open>TypeError\<close> or
  \<^verbatim>\<open>RangeError\<close> of the engine. Both are instances of \<^verbatim>\<open>Error\<close>, and so is every
  rejection of \<^verbatim>\<open>axios.get\<close>: the \<^verbatim>\<open>String(error)\<close> branch of the three catch
  clauses is never taken.
\<close>

datatype thrown = JsError string | EngineError fault

record host =
  numberToString :: "rat \<Rightarrow> string"
  numberToLocaleString :: "jsnum \<Rightarrow> string"
  dateToLocaleString :: "string \<Rightarrow> string"
  dateParse :: "string \<Rightarrow> jsnum"
  engineMessage :: "fault \<Rightarrow> string"

text \<open>
  \<open>numberToString\<close> is \<^verbatim>\<open>Number::toString\<close> on the finite numbers that are not
  integers below \<open>2^53\<close> (the shortest decimal that reads back as the same binary64);
  \<open>dateToLocaleString\<close> takes the ISO-8601 string of a valid date and renders that
  date as \<^verbatim>\<open>new Date(iso).toLocaleString()\<close> does.
\<close>

definition bindE :: "thrown + 'a \<Rightarrow> ('a \<Rightarrow> thrown + 'b) \<Rightarrow> thrown + 'b" where
  "bindE m f = (case m of Inl e \<Rightarrow> Inl e | Inr v \<Rightarrow> f v)"

fun mapE :: "('a \<Rightarrow> thrown + 'b) \<Rightarrow> 'a list \<Rightarrow> thrown + 'b list" where
  "mapE f [] = Inr []"
| "mapE f (x # xs) = bindE (f x) (\<lambda>y. bindE (mapE f xs) (\<lambda>ys. Inr (y # ys)))"

text \<open>\<^verbatim>\<open>error instanceof Error ? error.message : String(error)\<close>\<close>

definition errorMessage :: "host \<Rightarrow> thrown \<Rightarrow> string" where
  "errorMessage h e = (case e of JsError m \<Rightarrow> m | EngineError f \<Rightarrow> engineMessage h f)"

text \<open>\<^verbatim>\<open>try { ... } catch (error) { throw new Error(`<prefix>${message}`) }\<close>\<close>

definition rethrow :: "host \<Rightarrow> string \<Rightarrow> thrown + 'a \<Rightarrow> thrown + 'a" where
  "rethrow h prefix r =
     (case r of Inl e \<Rightarrow> Inl (JsError (prefix @ errorMessage h e)) | Inr v \<Rightarrow> Inr v)"

definition truthy :: "jsval \<Rightarrow> bool" where
  "truthy v =
     (case v of
        JUndefined \<Rightarrow> False
      | JNull \<Rightarrow> False
      | JBool b \<Rightarrow> b
      | JNum x \<Rightarrow> x \<noteq> NaN \<and> x \<noteq> Fin 0
      | JStr s \<Rightarrow> s \<noteq> []
      | JArr xs \<Rightarrow> True
      | JObj kvs \<Rightarrow> True)"

text \<open>\<^verbatim>\<open>a || b\<close>\<close>

definition jsOr :: "jsval \<Rightarrow> jsval \<Rightarrow> jsval" where
  "jsOr a b = (if truthy a then a else b)"

text \<open>
  \<^verbatim>\<open>obj.name\<close> for a data property; \<open>expr\<close> is the text of \<^verbatim>\<open>obj\<close> in the source.
  Arrays and strings have \<^verbatim>\<open>length\<close>; none of the other names the program reads
  is defined on a prototype.
\<close>

definition getProp :: "string \<Rightarrow> jsval \<Rightarrow> string \<Rightarrow> thrown + jsval" where
  "getProp expr v name =
     (case v of
        JUndefined \<Rightarrow> Inl (EngineError (ReadOfNullish expr name))
      | JNull \<Rightarrow> Inl (EngineError (ReadOfNullish expr name))
      | JBool b \<Rightarrow> Inr JUndefined
      | JNum x \<Rightarrow> Inr JUndefined
      | JStr s \<Rightarrow> Inr (if name = ''length'' then JNum (Fin (of_nat (length s))) else JUndefined)
      | JArr xs \<Rightarrow> Inr (if name = ''length'' then JNum (Fin (of_nat (length xs))) else JUndefined)
      | JObj kvs \<Rightarrow> Inr (case map_of kvs name of None \<Rightarrow> JUndefined | Some w \<Rightarrow> w))"

text \<open>A property of the argument mapping: \<^verbatim>\<open>args.symbol\<close>.\<close>

definition arg :: "(string \<times> jsval) list \<Rightarrow> string \<Rightarrow> jsval" where
  "arg args name = (case map_of args name of None \<Rightarrow> JUndefined | Some w \<Rightarrow> w)"

subsection \<open>Strings\<close>

fun showNat :: "nat \<Rightarrow> string" where
  "showNat n =
     (if n < 10 then [''0123456789'' ! n]
      else showNat (n div 10) @ [''0123456789'' ! (n mod 10)])"

declare showNat.simps [simp del]

definition showInt :: "int \<Rightarrow> string" where
  "showInt i = (if i < 0 then ''-'' @ showNat (nat (- i)) else showNat (nat i))"

definition pad :: "nat \<Rightarrow> string \<Rightarrow> string" where
  "pad n s = replicate (n - length s) (CHR ''0'') @ s"

definition toUpperChar :: "char \<Rightarrow> char" where
  "toUpperChar c =
     (case map_of (zip ''abcdefghijklmnopqrstuvwxyz'' ''ABCDEFGHIJKLMNOPQRSTUVWXYZ'') c of
        None \<Rightarrow> c
      | Some u \<Rightarrow> u)"

definition toUpperCase :: "string \<Rightarrow> string" where
  "toUpperCase s = map toUpperChar s"

text \<open>
  \<^verbatim>\<open>s.replace(pat, rep)\<close> with a string pattern replaces the first occurrence only.
  The program's replacement is the empty string, so the \<^verbatim>\<open>$\<close> patterns of a
  replacement string play no part.
\<close>

fun replace :: "string \<Rightarrow> string \<Rightarrow> string \<Rightarrow> string" where
  "replace [] pat rep = (if pat = [] then rep else [])"
| "replace (c # cs) pat rep =
     (if take (length pat) (c # cs) = pat then rep @ drop (length pat) (c # cs)
      else c # replace cs pat rep)"

text \<open>\<^verbatim>\<open>s.split(c)\<close> for a one-character separator, and \<^verbatim>\<open>xs[i]\<close> on its result.\<close>

fun split :: "string \<Rightarrow> char \<Rightarrow> string list" where
  "split [] c = [[]]"
| "split (x # xs) c =
     (if x = c then [] # split xs c
      else (case split xs c of [] \<Rightarrow> [[x]] | p # ps \<Rightarrow> (x # p) # ps))"

definition elemAt :: "'a list \<Rightarrow> nat \<Rightarrow> 'a option" where
  "elemAt xs i = (if i < length xs then Some (xs ! i) else None)"

text \<open>\<^verbatim>\<open>lines.join('\n')\<close>\<close>

fun joinLines :: "string list \<Rightarrow> string" where
  "joinLines [] = []"
| "joinLines [l] = l"
| "joinLines (l # m # ls) = l @ [CHR 0x0A] @ joinLines (m # ls)"

text \<open>\<^verbatim>\<open>xs.slice(-n)\<close>\<close>

definition sliceLast :: "nat \<Rightarrow> 'a list \<Rightarrow> 'a list" where
  "sliceLast n xs = drop (length xs - n) xs"

subsection \<open>Numbers\<close>

text \<open>\<^verbatim>\<open>a - b\<close>, \<^verbatim>\<open>a / b\<close>, \<^verbatim>\<open>a * b\<close> and \<^verbatim>\<open>a >= 0\<close> on numbers.\<close>

definition jsSub :: "jsnum \<Rightarrow> jsnum \<Rightarrow> jsnum" where
  "jsSub a b =
     (case (a, b) of
        (Fin x, Fin y) \<Rightarrow> Fin (x - y)
      | (Fin x, PosInf) \<Rightarrow> NegInf
      | (Fin x, NegInf) \<Rightarrow> PosInf
      | (PosInf, Fin y) \<Rightarrow> PosInf
      | (PosInf, NegInf) \<Rightarrow> PosInf
      | (NegInf, Fin y) \<Rightarrow> NegInf
      | (NegInf, PosInf) \<Rightarrow> NegInf
      | _ \<Rightarrow> NaN)"

definition jsDiv :: "jsnum \<Rightarrow> jsnum \<Rightarrow> jsnum" where
  "jsDiv a b =
     (case (a, b) of
        (Fin x, Fin y) \<Rightarrow>
          (if y \<noteq> 0 then Fin (x / y)
           else if x = 0 then NaN else if 0 < x then PosInf else NegInf)
      | (Fin x, PosInf) \<Rightarrow> Fin 0
      | (Fin x, NegInf) \<Rightarrow> Fin 0
      | (PosInf, Fin y) \<Rightarrow> (if y < 0 then NegInf else PosInf)
      | (NegInf, Fin y) \<Rightarrow> (if y < 0 then PosInf else NegInf)
      | _ \<Rightarrow> NaN)"

definition jsMul :: "jsnum \<Rightarrow> jsnum \<Rightarrow> jsnum" where
  "jsMul a b =
     (case (a, b) of
        (Fin x, Fin y) \<Rightarrow> Fin (x * y)
      | (Fin x, PosInf) \<Rightarrow> (if x = 0 then NaN else if 0 < x then PosInf else NegInf)
      | (Fin x, NegInf) \<Rightarrow> (if x = 0 then NaN else if 0 < x then NegInf else PosInf)
      | (PosInf, Fin y) \<Rightarrow> (if y = 0 then NaN else if 0 < y then PosInf else NegInf)
      | (NegInf, Fin y) \<Rightarrow> (if y = 0 then NaN else if 0 < y then NegInf else PosInf)
      | (PosInf, PosInf) \<Rightarrow> PosInf
      | (PosInf, NegInf) \<Rightarrow> NegInf
      | (NegInf, PosInf) \<Rightarrow> NegInf
      | (NegInf, NegInf) \<Rightarrow> PosInf
      | _ \<Rightarrow> NaN)"

definition geZero :: "jsnum \<Rightarrow> bool" where
  "geZero a = (case a of Fin x \<Rightarrow> 0 \<le> x | PosInf \<Rightarrow> True | _ \<Rightarrow> False)"

definition jsLe :: "jsnum \<Rightarrow> jsnum \<Rightarrow> bool" where
  "jsLe a b =
     (case (a, b) of
        (Fin x, Fin y) \<Rightarrow> x \<le> y
      | (NegInf, Fin y) \<Rightarrow> True
      | (NegInf, NegInf) \<Rightarrow> True
      | (NegInf, PosInf) \<Rightarrow> True
      | (Fin x, PosInf) \<Rightarrow> True
      | (PosInf, PosInf) \<Rightarrow> True
      | _ \<Rightarrow> False)"

text \<open>
  \<^verbatim>\<open>Math.max(...xs)\<close> and \<^verbatim>\<open>Math.min(...xs)\<close>: NaN as soon as one argument is NaN.
  The engine's bound on the number of spread arguments is not represented.
\<close>

definition max2 :: "jsnum \<Rightarrow> jsnum \<Rightarrow> jsnum" where
  "max2 a b = (if a = NaN \<or> b = NaN then NaN else if jsLe a b then b else a)"

definition min2 :: "jsnum \<Rightarrow> jsnum \<Rightarrow> jsnum" where
  "min2 a b = (if a = NaN \<or> b = NaN then NaN else if jsLe a b then a else b)"

definition mathMax :: "jsnum list \<Rightarrow> jsnum" where
  "mathMax xs = foldl max2 NegInf xs"

definition mathMin :: "jsnum list \<Rightarrow> jsnum" where
  "mathMin xs = foldl min2 PosInf xs"

text \<open>
  \<^verbatim>\<open>parseFloat\<close> on a string: leading white space, then the longest prefix that is a
  decimal literal (sign, \<^verbatim>\<open>Infinity\<close> or digits with an optional fraction and an
  optional exponent); NaN when there is none.
\<close>

definition isWhite :: "char \<Rightarrow> bool" where
  "isWhite c = (c \<in> set [CHR 0x09, CHR 0x0A, CHR 0x0B, CHR 0x0C, CHR 0x0D, CHR 0x20])"

definition isDigit :: "char \<Rightarrow> bool" where
  "isDigit c = (c \<in> set ''0123456789'')"

definition digitVal :: "char \<Rightarrow> nat" where
  "digitVal c =
     (case map_of (zip ''0123456789'' [0, 1, 2, 3, 4, 5, 6, 7, 8, 9]) c of
        None \<Rightarrow> 0
      | Some d \<Rightarrow> d)"

definition natOfDigits :: "string \<Rightarrow> nat" where
  "natOfDigits ds = foldl (\<lambda>a c. 10 * a + digitVal c) 0 ds"

definition signOf :: "string \<Rightarrow> bool \<times> string" where
  "signOf s =
     (case s of
        [] \<Rightarrow> (False, s)
      | c # r \<Rightarrow>
          if c = CHR ''-'' then (True, r) else if c = CHR ''+'' then (False, r) else (False, s))"

definition exponentOf :: "string \<Rightarrow> int" where
  "exponentOf s =
     (case s of
        [] \<Rightarrow> 0
      | c # r \<Rightarrow>
          if c = CHR ''e'' \<or> c = CHR ''E'' then
            (let (neg, ds) = signOf r; e = takeWhile isDigit ds
             in if e = [] then 0
                else if neg then - int (natOfDigits e) else int (natOfDigits e))
          else 0)"

definition scale10 :: "rat \<Rightarrow> int \<Rightarrow> rat" where
  "scale10 m e = (if 0 \<le> e then m * 10 ^ nat e else m / 10 ^ nat (- e))"

definition parseFloatStr :: "string \<Rightarrow> jsnum" where
  "parseFloatStr s =
     (let (neg, u) = signOf (dropWhile isWhite s)
      in if take 8 u = ''Infinity'' then (if neg then NegInf else PosInf)
         else
           (let ip = takeWhile isDigit u;
                r1 = dropWhile isDigit u;
                (fp, r2) =
                  (case r1 of
                     [] \<Rightarrow> ([], r1)
                   | c # r \<Rightarrow>
                       if c = CHR ''.'' then (takeWhile isDigit r, dropWhile isDigit r)
                       else ([], r1))
            in if ip = [] \<and> fp = [] then NaN
               else
                 (let m = of_nat (natOfDigits ip) + of_nat (natOfDigits fp) / 10 ^ length fp
                  in Fin (scale10 (if neg then - m else m) (exponentOf r2)))))"

text \<open>
  \<^verbatim>\<open>Number::toString\<close>: the decimal digits for an integer below \<open>2^53\<close>, the host's
  rendering for the other finite numbers.
\<close>

definition numToString :: "host \<Rightarrow> jsnum \<Rightarrow> string" where
  "numToString h x =
     (case x of
        NaN \<Rightarrow> ''NaN''
      | PosInf \<Rightarrow> ''Infinity''
      | NegInf \<Rightarrow> ''-Infinity''
      | Fin q \<Rightarrow>
          if of_int \<lfloor>q\<rfloor> = q \<and> \<bar>q\<bar> < 2 ^ 53 then showInt \<lfloor>q\<rfloor> else numberToString h q)"

text \<open>
  \<^verbatim>\<open>ToString(v)\<close>, as a template literal and \<^verbatim>\<open>parseFloat\<close> apply it. An array is
  joined with commas, \<^verbatim>\<open>null\<close> and \<^verbatim>\<open>undefined\<close> elements giving the empty string. An
  object parsed from JSON has no callable property: with an own \<^verbatim>\<open>toString\<close> key
  neither \<^verbatim>\<open>toString\<close> nor \<^verbatim>\<open>valueOf\<close> yields a primitive and the conversion throws a
  \<^verbatim>\<open>TypeError\<close>; without one it is \<^verbatim>\<open>[object Object]\<close>.
\<close>

fun jsToString :: "host \<Rightarrow> jsval \<Rightarrow> thrown + string"
  and joinElems :: "host \<Rightarrow> jsval list \<Rightarrow> thrown + string" where
  "jsToString h JUndefined = Inr ''undefined''"
| "jsToString h JNull = Inr ''null''"
| "jsToString h (JBool b) = Inr (if b then ''true'' else ''false'')"
| "jsToString h (JNum x) = Inr (numToString h x)"
| "jsToString h (JStr s) = Inr s"
| "jsToString h (JArr xs) = joinElems h xs"
| "jsToString h (JObj kvs) =
     (if map_of kvs ''toString'' = None then Inr ''[object Object]''
      else Inl (EngineError NoPrimitiveValue))"
| "joinElems h [] = Inr []"
| "joinElems h (x # xs) =
     bindE (if x = JUndefined \<or> x = JNull then Inr [] else jsToString h x)
       (\<lambda>s. if xs = [] then Inr s
            else bindE (joinElems h xs) (\<lambda>r. Inr (s @ '','' @ r)))"

text \<open>\<^verbatim>\<open>parseFloat(v)\<close> is \<^verbatim>\<open>parseFloat\<close> of \<^verbatim>\<open>ToString(v)\<close>.\<close>

definition parseFloat :: "host \<Rightarrow> jsval \<Rightarrow> thrown + jsnum" where
  "parseFloat h v = bindE (jsToString h v) (\<lambda>s. Inr (parseFloatStr s))"

text \<open>
  \<^verbatim>\<open>x.toFixed(f)\<close>: the sign, then the integer nearest to \<open>|x| * 10^f\<close> (the larger
  one on a tie) with a point before its last \<open>f\<close> digits; \<^verbatim>\<open>ToString\<close> from \<open>10^21\<close> on.
\<close>

definition toFixed :: "host \<Rightarrow> nat \<Rightarrow> jsnum \<Rightarrow> string" where
  "toFixed h f x =
     (case x of
        NaN \<Rightarrow> ''NaN''
      | PosInf \<Rightarrow> ''Infinity''
      | NegInf \<Rightarrow> ''-Infinity''
      | Fin q \<Rightarrow>
          (if q < 0 then ''-'' else []) @
          (if 10 ^ 21 \<le> \<bar>q\<bar> then numToString h (Fin \<bar>q\<bar>)
           else
             (let m = showNat (nat \<lfloor>\<bar>q\<bar> * 10 ^ f + 1 / 2\<rfloor>)
              in if f = 0 then m
                 else
                   (let z = pad (Suc f) m; k = length z
                    in take (k - f) z @ ''.'' @ drop (k - f) z))))"

text \<open>
  \<^verbatim>\<open>x.toLocaleString()\<close> in the locale \<^verbatim>\<open>en-US\<close> (ECMA-402 with the default options:
  grouping by thousands, at most three fraction digits, ties rounded away from zero).
\<close>

fun groupRev :: "string \<Rightarrow> string" where
  "groupRev (a # b # c # d # r) = a # b # c # CHR '','' # groupRev (d # r)"
| "groupRev ds = ds"

definition groupThousands :: "string \<Rightarrow> string" where
  "groupThousands ds = rev (groupRev (rev ds))"

definition stripZeros :: "string \<Rightarrow> string" where
  "stripZeros ds = rev (dropWhile (\<lambda>c. c = CHR ''0'') (rev ds))"

definition toLocaleString_enUS :: "jsnum \<Rightarrow> string" where
  "toLocaleString_enUS x =
     (case x of
        NaN \<Rightarrow> ''NaN''
      | PosInf \<Rightarrow> [CHR 0xE2, CHR 0x88, CHR 0x9E]
      | NegInf \<Rightarrow> ''-'' @ [CHR 0xE2, CHR 0x88, CHR 0x9E]
      | Fin q \<Rightarrow>
          (let n = nat \<lfloor>\<bar>q\<bar> * 1000 + 1 / 2\<rfloor>;
               fs = stripZeros (pad 3 (showNat (n mod 1000)))
           in (if q < 0 then ''-'' else []) @ groupThousands (showNat (n div 1000)) @
              (if fs = [] then [] else ''.'' @ fs)))"

subsection \<open>Dates\<close>

text \<open>
  \<^verbatim>\<open>new Date(v)\<close>: the time value in milliseconds, \<open>None\<close> for an invalid date. A
  string, and the string an array or object converts to, is parsed by the host.
\<close>

definition timeClip :: "jsnum \<Rightarrow> int option" where
  "timeClip x =
     (case x of
        Fin q \<Rightarrow>
          if 8640000000000000 < \<bar>q\<bar> then None
          else Some (if 0 \<le> q then \<lfloor>q\<rfloor> else - \<lfloor>- q\<rfloor>)
      | _ \<Rightarrow> None)"

definition newDate :: "host \<Rightarrow> jsval \<Rightarrow> thrown + int option" where
  "newDate h v =
     (case v of
        JUndefined \<Rightarrow> Inr None
      | JNull \<Rightarrow> Inr (Some 0)
      | JBool b \<Rightarrow> Inr (Some (if b then 1 else 0))
      | JNum x \<Rightarrow> Inr (timeClip x)
      | _ \<Rightarrow> bindE (jsToString h v) (\<lambda>s. Inr (timeClip (dateParse h s))))"

text \<open>The civil date of a day number (days since 1970-01-01), proleptic Gregorian.\<close>

definition civil :: "int \<Rightarrow> int \<times> int \<times> int" where
  "civil days =
     (let z = days + 719468;
          era = z div 146097;
          doe = z mod 146097;
          yoe = (doe - doe div 1460 + doe div 36524 - doe div 146096) div 365;
          doy = doe - (365 * yoe + yoe div 4 - yoe div 100);
          mp = (5 * doy + 2) div 153;
          d = doy - (153 * mp + 2) div 5 + 1;
          m = (if mp < 10 then mp + 3 else mp - 9);
          y = yoe + era * 400 + (if m \<le> 2 then 1 else 0)
      in (y, m, d))"

definition showYear :: "int \<Rightarrow> string" where
  "showYear y =
     (if 0 \<le> y \<and> y \<le> 9999 then pad 4 (showNat (nat y))
      else (if y < 0 then ''-'' else ''+'') @ pad 6 (showNat (nat \<bar>y\<bar>)))"

definition show2 :: "int \<Rightarrow> string" where
  "show2 i = pad 2 (showNat (nat i))"

text \<open>\<^verbatim>\<open>date.toISOString()\<close>; a \<^verbatim>\<open>RangeError\<close> on an invalid date.\<close>

definition isoOfTime :: "int \<Rightarrow> string" where
  "isoOfTime t =
     (let (y, m, d) = civil (t div 86400000);
          ms = t mod 86400000
      in showYear y @ ''-'' @ show2 m @ ''-'' @ show2 d @ ''T'' @
         show2 (ms div 3600000) @ '':'' @ show2 (ms mod 3600000 div 60000) @ '':'' @
         show2 (ms mod 60000 div 1000) @ ''.'' @ pad 3 (showNat (nat (ms mod 1000))) @ ''Z'')"

definition toISOString :: "int option \<Rightarrow> thrown + string" where
  "toISOString d =
     (case d of None \<Rightarrow> Inl (EngineError InvalidTimeValue) | Some t \<Rightarrow> Inr (isoOfTime t))"

subsection \<open>Replies and outbound requests\<close>

text \<open>
  A reply is \<^verbatim>\<open>{ content: [{ type: ..., text: ... }] }\<close>; \<open>itemType\<close> and \<open>itemText\<close> are
  the fields \<^verbatim>\<open>type\<close> and \<^verbatim>\<open>text\<close> of a content item.
\<close>

record contentItem =
  itemType :: string
  itemText :: string

record toolResult =
  content :: "contentItem list"

definition textResult :: "string \<Rightarrow> toolResult" where
  "textResult t = \<lparr>content = [\<lparr>itemType = ''text'', itemText = t\<rparr>]\<rparr>"

text \<open>
  \<^verbatim>\<open>axios.get(url, { params })\<close>: the request as the handler builds it, and the
  exchange as a function from the request to the response body or the rejection.
\<close>

record request =
  url :: string
  params :: "(string \<times> jsval) list"

type_synonym source = "request \<Rightarrow> thrown + jsval"

type_synonym 'a handled = "request list \<times> (thrown + 'a)"

definition baseURL :: string where
  "baseURL = ''https://api.binance.com/api/v3''"

text \<open>\<^verbatim>\<open>symbol.toUpperCase()\<close>, \<^verbatim>\<open>symbol\<close> being whatever the arguments held.\<close>

definition callToUpperCase :: "jsval \<Rightarrow> thrown + string" where
  "callToUpperCase symbol =
     (case symbol of
        JStr s \<Rightarrow> Inr (toUpperCase s)
      | JUndefined \<Rightarrow> Inl (EngineError (ReadOfNullish ''symbol'' ''toUpperCase''))
      | JNull \<Rightarrow> Inl (EngineError (ReadOfNullish ''symbol'' ''toUpperCase''))
      | _ \<Rightarrow> Inl (EngineError (NotAFunction ''symbol.toUpperCase'')))"

text \<open>The characters of the templates that are not ASCII, in UTF-8.\<close>

definition nl :: string where "nl = [CHR 0x0A]"
definition barChart :: string where "barChart = [CHR 0xF0, CHR 0x9F, CHR 0x93, CHR 0x8A]"
definition moneyBag :: string where "moneyBag = [CHR 0xF0, CHR 0x9F, CHR 0x92, CHR 0xB0]"
definition chartUp :: string where "chartUp = [CHR 0xF0, CHR 0x9F, CHR 0x93, CHR 0x88]"
definition upButton :: string where "upButton = [CHR 0xF0, CHR 0x9F, CHR 0x94, CHR 0xBC]"
definition downButton :: string where "downButton = [CHR 0xF0, CHR 0x9F, CHR 0x94, CHR 0xBD]"
definition banknote :: string where "banknote = [CHR 0xF0, CHR 0x9F, CHR 0x92, CHR 0xB5]"
definition clockFace :: string where "clockFace = [CHR 0xF0, CHR 0x9F, CHR 0x95, CHR 0x90]"
definition greenCircle :: string where "greenCircle = [CHR 0xF0, CHR 0x9F, CHR 0x9F, CHR 0xA2]"
definition redCircle :: string where "redCircle = [CHR 0xF0, CHR 0x9F, CHR 0x94, CHR 0xB4]"
definition clipboard :: string where "clipboard = [CHR 0xF0, CHR 0x9F, CHR 0x93, CHR 0x8B]"
definition bullet :: string where "bullet = [CHR 0xE2, CHR 0x80, CHR 0xA2]"

text \<open>\<^verbatim>\<open>x >= 0 ? '+' : ''\<close>\<close>

definition plusSign :: "jsnum \<Rightarrow> string" where
  "plusSign x = (if geZero x then ''+'' else [])"

subsection \<open>\<^verbatim>\<open>getCurrentPrice\<close>\<close>

definition currentPriceReply :: "host \<Rightarrow> jsval \<Rightarrow> thrown + toolResult" where
  "currentPriceReply h data =
     bindE (getProp ''data'' data ''symbol'') (\<lambda>dsym.
     bindE (jsToString h dsym) (\<lambda>symText.
     bindE (getProp ''data'' data ''price'') (\<lambda>price.
     bindE (parseFloat h price) (\<lambda>p.
     Inr (textResult
       (''Current price for '' @ symText @ '': $'' @ numberToLocaleString h p))))))"

definition getCurrentPrice :: "host \<Rightarrow> source \<Rightarrow> jsval \<Rightarrow> toolResult handled" where
  "getCurrentPrice h src symbol =
     (case callToUpperCase symbol of
        Inl e \<Rightarrow> ([], rethrow h ''Failed to fetch current price: '' (Inl e))
      | Inr usym \<Rightarrow>
          (let req = \<lparr>url = baseURL @ ''/ticker/price'', params = [(''symbol'', JStr usym)]\<rparr>
           in ([req],
               rethrow h ''Failed to fetch current price: ''
                 (bindE (src req) (currentPriceReply h)))))"

subsection \<open>\<^verbatim>\<open>get24hrTicker\<close>\<close>

text \<open>
  \<^verbatim>\<open>data.symbol.replace('USDT', '').replace('BUSD', '').replace('BTC', '').replace('ETH', '')\<close>
\<close>

definition assetLabel :: "string \<Rightarrow> string" where
  "assetLabel s =
     replace (replace (replace (replace s ''USDT'' []) ''BUSD'' []) ''BTC'' []) ''ETH'' []"

definition callReplace :: "jsval \<Rightarrow> thrown + string" where
  "callReplace dsym =
     (case dsym of
        JStr s \<Rightarrow> Inr (assetLabel s)
      | JUndefined \<Rightarrow> Inl (EngineError (ReadOfNullish ''data.symbol'' ''replace''))
      | JNull \<Rightarrow> Inl (EngineError (ReadOfNullish ''data.symbol'' ''replace''))
      | _ \<Rightarrow> Inl (EngineError (NotAFunction ''data.symbol.replace'')))"

definition parseField :: "host \<Rightarrow> jsval \<Rightarrow> string \<Rightarrow> thrown + jsnum" where
  "parseField h data name = bindE (getProp ''data'' data name) (parseFloat h)"

definition tickerReply :: "host \<Rightarrow> jsval \<Rightarrow> thrown + toolResult" where
  "tickerReply h data =
     bindE (parseField h data ''priceChange'') (\<lambda>priceChange.
     bindE (parseField h data ''priceChangePercent'') (\<lambda>priceChangePercent.
     bindE (parseField h data ''lastPrice'') (\<lambda>currentPrice.
     bindE (parseField h data ''volume'') (\<lambda>volume.
     bindE (parseField h data ''highPrice'') (\<lambda>high24h.
     bindE (parseField h data ''lowPrice'') (\<lambda>low24h.
     bindE (getProp ''data'' data ''symbol'') (\<lambda>dsym.
     bindE (jsToString h dsym) (\<lambda>symText.
     bindE (callReplace dsym) (\<lambda>label.
     bindE (parseField h data ''quoteVolume'') (\<lambda>quoteVolume.
     Inr (textResult
       (barChart @ '' '' @ symText @ '' - 24hr Statistics:'' @ nl @
        ''            '' @ nl @
        moneyBag @ '' Current Price: $'' @ numberToLocaleString h currentPrice @ nl @
        chartUp @ '' 24h Change: '' @ plusSign priceChange @ ''$'' @
          toFixed h 4 priceChange @ '' ('' @ plusSign priceChangePercent @
          toFixed h 2 priceChangePercent @ ''%)'' @ nl @
        upButton @ '' 24h High: $'' @ numberToLocaleString h high24h @ nl @
        downButton @ '' 24h Low: $'' @ numberToLocaleString h low24h @ nl @
        barChart @ '' 24h Volume: '' @ numberToLocaleString h volume @ '' '' @ label @ nl @
        banknote @ '' Quote Volume: $'' @ numberToLocaleString h quoteVolume))))))))))))"

definition get24hrTicker :: "host \<Rightarrow> source \<Rightarrow> jsval \<Rightarrow> toolResult handled" where
  "get24hrTicker h src symbol =
     (case callToUpperCase symbol of
        Inl e \<Rightarrow> ([], rethrow h ''Failed to fetch 24hr ticker: '' (Inl e))
      | Inr usym \<Rightarrow>
          (let req = \<lparr>url = baseURL @ ''/ticker/24hr'', params = [(''symbol'', JStr usym)]\<rparr>
           in ([req],
               rethrow h ''Failed to fetch 24hr ticker: ''
                 (bindE (src req) (tickerReply h)))))"

subsection \<open>Candles\<close>

text \<open>
  \<^verbatim>\<open>const [openTime, open, high, low, close, volume] = kline\<close> iterates \<^verbatim>\<open>kline\<close>: the
  elements of an array, the characters of a string, a \<^verbatim>\<open>TypeError\<close> on anything else.
  A position past the end is \<^verbatim>\<open>undefined\<close>.
\<close>

definition destructure :: "jsval \<Rightarrow> thrown + jsval list" where
  "destructure kline =
     (case kline of
        JArr xs \<Rightarrow> Inr xs
      | JStr s \<Rightarrow> Inr (map (\<lambda>c. JStr [c]) s)
      | _ \<Rightarrow> Inl (EngineError (NotIterable ''kline'')))"

definition item :: "jsval list \<Rightarrow> nat \<Rightarrow> jsval" where
  "item xs i = (case elemAt xs i of None \<Rightarrow> JUndefined | Some v \<Rightarrow> v)"

text \<open>\<^verbatim>\<open>klines[index - 1][4]\<close>: \<^verbatim>\<open>v[i]\<close> on an element of the series.\<close>

definition getIndex :: "string \<Rightarrow> jsval \<Rightarrow> nat \<Rightarrow> thrown + jsval" where
  "getIndex expr v i =
     (case v of
        JArr xs \<Rightarrow> Inr (item xs i)
      | JStr s \<Rightarrow> Inr (item (map (\<lambda>c. JStr [c]) s) i)
      | _ \<Rightarrow> getProp expr v (showNat i))"

text \<open>\<^verbatim>\<open>!klines || klines.length === 0\<close>\<close>

definition noData :: "jsval \<Rightarrow> bool" where
  "noData klines =
     (\<not> truthy klines \<or> getProp ''klines'' klines ''length'' = Inr (JNum (Fin 0)))"

subsection \<open>\<^verbatim>\<open>getKlineData\<close>\<close>

record klineRow =
  k_time :: string
  k_open :: jsnum
  k_high :: jsnum
  k_low :: jsnum
  k_close :: jsnum
  k_volume :: jsnum

definition parseKline :: "host \<Rightarrow> jsval \<Rightarrow> thrown + klineRow" where
  "parseKline h kline =
     bindE (destructure kline) (\<lambda>xs.
     bindE (newDate h (item xs 0)) (\<lambda>d.
     bindE (toISOString d) (\<lambda>t.
     bindE (parseFloat h (item xs 1)) (\<lambda>open.
     bindE (parseFloat h (item xs 2)) (\<lambda>high.
     bindE (parseFloat h (item xs 3)) (\<lambda>low.
     bindE (parseFloat h (item xs 4)) (\<lambda>close.
     bindE (parseFloat h (item xs 5)) (\<lambda>volume.
     Inr \<lparr>k_time = t, k_open = open, k_high = high, k_low = low, k_close = close,
          k_volume = volume\<rparr>))))))))"

text \<open>\<^verbatim>\<open>klines.slice(-5).map(...)\<close>\<close>

definition lastKlines :: "host \<Rightarrow> jsval \<Rightarrow> thrown + klineRow list" where
  "lastKlines h klines =
     (case klines of
        JArr ks \<Rightarrow> mapE (parseKline h) (sliceLast 5 ks)
      | JStr s \<Rightarrow> Inl (EngineError (NotAFunction ''klines.slice(...).map''))
      | _ \<Rightarrow> Inl (EngineError (NotAFunction ''klines.slice'')))"

definition klineLine :: "host \<Rightarrow> klineRow \<Rightarrow> string" where
  "klineLine h k =
     dateToLocaleString h (k_time k) @ '': O:'' @ toFixed h 2 (k_open k) @
     '' H:'' @ toFixed h 2 (k_high k) @ '' L:'' @ toFixed h 2 (k_low k) @
     '' C:'' @ toFixed h 2 (k_close k)"

definition klineReply ::
  "host \<Rightarrow> string \<Rightarrow> jsval \<Rightarrow> jsval \<Rightarrow> jsval \<Rightarrow> thrown + toolResult" where
  "klineReply h usym interval limit klines =
     (if noData klines then Inl (JsError ''No kline data received'')
      else
        bindE (lastKlines h klines) (\<lambda>rows.
        let latestKline = last rows in
        bindE (jsToString h interval) (\<lambda>intervalText.
        bindE (jsToString h limit) (\<lambda>limitText.
        bindE (getProp ''klines'' klines ''length'') (\<lambda>len.
        bindE (jsToString h len) (\<lambda>lenText.
        Inr (textResult
          (chartUp @ '' '' @ usym @ '' Kline Data ('' @ intervalText @ '' interval, last '' @
             limitText @ '' periods):'' @ nl @
           nl @
           ''Latest Candle:'' @ nl @
           clockFace @ '' Time: '' @ k_time latestKline @ nl @
           greenCircle @ '' Open: $'' @ numberToLocaleString h (k_open latestKline) @ nl @
           redCircle @ '' Close: $'' @ numberToLocaleString h (k_close latestKline) @ nl @
           upButton @ '' High: $'' @ numberToLocaleString h (k_high latestKline) @ nl @
           downButton @ '' Low: $'' @ numberToLocaleString h (k_low latestKline) @ nl @
           barChart @ '' Volume: '' @ numberToLocaleString h (k_volume latestKline) @ nl @
           nl @
           ''Recent 5 candles:'' @ nl @
           joinLines (map (klineLine h) rows) @ nl @
           nl @
           ''Total data points received: '' @ lenText))))))))"

definition getKlineData ::
  "host \<Rightarrow> source \<Rightarrow> jsval \<Rightarrow> jsval \<Rightarrow> jsval \<Rightarrow> toolResult handled" where
  "getKlineData h src symbol interval limit =
     (case callToUpperCase symbol of
        Inl e \<Rightarrow> ([], rethrow h ''Failed to fetch kline data: '' (Inl e))
      | Inr usym \<Rightarrow>
          (let req = \<lparr>url = baseURL @ ''/klines'',
                      params = [(''symbol'', JStr usym), (''interval'', interval),
                                (''limit'', limit)]\<rparr>
           in ([req],
               rethrow h ''Failed to fetch kline data: ''
                 (bindE (src req) (klineReply h usym interval limit)))))"

subsection \<open>\<^verbatim>\<open>getPriceHistory\<close>\<close>

record historyRow =
  period :: nat
  timestamp :: string
  d_open :: jsnum
  d_high :: jsnum
  d_low :: jsnum
  d_close :: jsnum
  d_volume :: jsnum
  change :: jsnum

text \<open>
  \<^verbatim>\<open>(a - b) / b * 100\<close>, the shape of both \<^verbatim>\<open>change\<close> and \<^verbatim>\<open>totalChange\<close>.
\<close>

definition percentChange :: "jsnum \<Rightarrow> jsnum \<Rightarrow> jsnum \<Rightarrow> jsnum" where
  "percentChange a b b' = jsMul (jsDiv (jsSub a b) b') (Fin 100)"

text \<open>
  \<^verbatim>\<open>index > 0 ? ((parseFloat(close) - parseFloat(klines[index - 1][4])) /
  parseFloat(klines[index - 1][4]) * 100) : 0\<close>
\<close>

definition changeOf :: "host \<Rightarrow> jsval list \<Rightarrow> nat \<Rightarrow> jsval \<Rightarrow> thrown + jsnum" where
  "changeOf h klines index close =
     (if 0 < index then
        bindE (parseFloat h close) (\<lambda>c.
        bindE (getIndex ''klines[index - 1]'' (item klines (index - 1)) 4) (\<lambda>prev.
        bindE (parseFloat h prev) (\<lambda>p.
        bindE (getIndex ''klines[index - 1]'' (item klines (index - 1)) 4) (\<lambda>prev'.
        bindE (parseFloat h prev') (\<lambda>p'.
        Inr (percentChange c p p'))))))
      else Inr (Fin 0))"

definition parseHistory :: "host \<Rightarrow> jsval list \<Rightarrow> nat \<times> jsval \<Rightarrow> thrown + historyRow" where
  "parseHistory h klines ik =
     (let index = fst ik; kline = snd ik in
      bindE (destructure kline) (\<lambda>xs.
      bindE (newDate h (item xs 0)) (\<lambda>d.
      bindE (toISOString d) (\<lambda>t.
      bindE (parseFloat h (item xs 1)) (\<lambda>open.
      bindE (parseFloat h (item xs 2)) (\<lambda>high.
      bindE (parseFloat h (item xs 3)) (\<lambda>low.
      bindE (parseFloat h (item xs 4)) (\<lambda>close.
      bindE (parseFloat h (item xs 5)) (\<lambda>volume.
      bindE (changeOf h klines index (item xs 4)) (\<lambda>ch.
      Inr \<lparr>period = index + 1, timestamp = t, d_open = open, d_high = high, d_low = low,
           d_close = close, d_volume = volume, change = ch\<rparr>))))))))))"

text \<open>\<^verbatim>\<open>klines.map((kline, index) => ...)\<close>\<close>

definition historicalData :: "host \<Rightarrow> jsval \<Rightarrow> thrown + historyRow list" where
  "historicalData h klines =
     (case klines of
        JArr ks \<Rightarrow> mapE (parseHistory h ks) (enumerate 0 ks)
      | _ \<Rightarrow> Inl (EngineError (NotAFunction ''klines.map'')))"

definition totalChange :: "historyRow list \<Rightarrow> jsnum" where
  "totalChange rows =
     (let latest = last rows; oldest = hd rows
      in percentChange (d_close latest) (d_open oldest) (d_open oldest))"

text \<open>\<^verbatim>\<open>ts.split('T')[0]\<close> and \<^verbatim>\<open>ts.split('T')[1].split('.')[0]\<close>\<close>

definition firstOf :: "string list \<Rightarrow> string" where
  "firstOf ps = (case elemAt ps 0 of None \<Rightarrow> ''undefined'' | Some p \<Rightarrow> p)"

definition datePart :: "string \<Rightarrow> string" where
  "datePart ts = firstOf (split ts (CHR ''T''))"

definition timePart :: "string \<Rightarrow> thrown + string" where
  "timePart ts =
     (case elemAt (split ts (CHR ''T'')) 1 of
        None \<Rightarrow> Inl (EngineError (ReadOfNullish ''d.timestamp.split(...)[1]'' ''split''))
      | Some r \<Rightarrow> Inr (firstOf (split r (CHR ''.''))))"

definition historyLine :: "host \<Rightarrow> historyRow \<Rightarrow> thrown + string" where
  "historyLine h d =
     bindE (timePart (timestamp d)) (\<lambda>tp.
     Inr (datePart (timestamp d) @ '' '' @ tp @ '': '' @ toFixed h 2 (d_close d) @
          '' ('' @ plusSign (change d) @ toFixed h 2 (change d) @ ''%)''))"

definition historyReply ::
  "host \<Rightarrow> string \<Rightarrow> jsval \<Rightarrow> jsval \<Rightarrow> jsval \<Rightarrow> thrown + toolResult" where
  "historyReply h usym interval limit klines =
     (if noData klines then Inl (JsError ''No historical data received'')
      else
        bindE (historicalData h klines) (\<lambda>rows.
        let latest = last rows; oldest = hd rows in
        bindE (jsToString h interval) (\<lambda>intervalText.
        bindE (jsToString h limit) (\<lambda>limitText.
        bindE (mapE (historyLine h) (sliceLast 10 rows)) (\<lambda>recent.
        Inr (textResult
          (barChart @ '' '' @ usym @ '' Price History ('' @ intervalText @ '' intervals, '' @
             limitText @ '' periods):'' @ nl @
           nl @
           chartUp @ '' Summary:'' @ nl @
           bullet @ '' Period: '' @ datePart (timestamp oldest) @ '' to '' @
             datePart (timestamp latest) @ nl @
           bullet @ '' Starting Price: $'' @ numberToLocaleString h (d_open oldest) @ nl @
           bullet @ '' Current Price: $'' @ numberToLocaleString h (d_close latest) @ nl @
           bullet @ '' Total Change: '' @ plusSign (totalChange rows) @
             toFixed h 2 (totalChange rows) @ ''%'' @ nl @
           bullet @ '' Highest: '' @ numberToLocaleString h (mathMax (map d_high rows)) @ nl @
           bullet @ '' Lowest: '' @ numberToLocaleString h (mathMin (map d_low rows)) @ nl @
           nl @
           clipboard @ '' Recent 10 periods:'' @ nl @
           joinLines recent)))))))"

definition getPriceHistory ::
  "host \<Rightarrow> source \<Rightarrow> jsval \<Rightarrow> jsval \<Rightarrow> jsval \<Rightarrow> toolResult handled" where
  "getPriceHistory h src symbol interval limit =
     (case callToUpperCase symbol of
        Inl e \<Rightarrow> ([], rethrow h ''Failed to fetch price history: '' (Inl e))
      | Inr usym \<Rightarrow>
          (let req = \<lparr>url = baseURL @ ''/klines'',
                      params = [(''symbol'', JStr usym), (''interval'', interval),
                                (''limit'', limit)]\<rparr>
           in ([req],
               rethrow h ''Failed to fetch price history: ''
                 (bindE (src req) (historyReply h usym interval limit)))))"

subsection \<open>The tool list and the dispatch\<close>

record property =
  propName :: string
  propType :: string
  propDescription :: string
  propEnum :: "string list option"
  propMinimum :: "int option"
  propMaximum :: "int option"

record toolDescriptor =
  toolName :: string
  toolDescription :: string
  properties :: "property list"
  required :: "string list"

definition symbolProperty :: property where
  "symbolProperty =
     \<lparr>propName = ''symbol'', propType = ''string'',
      propDescription = ''Trading pair symbol (e.g., BTCUSDT, ETHUSDT)'',
      propEnum = None, propMinimum = None, propMaximum = None\<rparr>"

definition intervalEnum :: "string list" where
  "intervalEnum =
     [''1m'', ''3m'', ''5m'', ''15m'', ''30m'', ''1h'', ''2h'', ''4h'', ''6h'', ''8h'',
      ''12h'', ''1d'', ''3d'', ''1w'', ''1M'']"

text \<open>The handler of \<^verbatim>\<open>ListToolsRequestSchema\<close>.\<close>

definition listTools :: "toolDescriptor list" where
  "listTools =
     [\<lparr>toolName = ''get_current_price'',
       toolDescription = ''Get current price for a cryptocurrency symbol'',
       properties = [symbolProperty],
       required = [''symbol'']\<rparr>,
      \<lparr>toolName = ''get_24hr_ticker'',
       toolDescription = ''Get 24hr ticker price change statistics'',
       properties = [symbolProperty],
       required = [''symbol'']\<rparr>,
      \<lparr>toolName = ''get_kline_data'',
       toolDescription =
         ''Get candlestick/kline data for a symbol with specified timeframe'',
       properties =
         [symbolProperty,
          \<lparr>propName = ''interval'', propType = ''string'',
           propDescription =
             ''Timeframe interval (1m, 3m, 5m, 15m, 30m, 1h, 2h, 4h, 6h, 8h, 12h, 1d, 3d, 1w, 1M)'',
           propEnum = Some intervalEnum, propMinimum = None, propMaximum = None\<rparr>,
          \<lparr>propName = ''limit'', propType = ''number'',
           propDescription = ''Number of klines to return (default: 100, max: 1000)'',
           propEnum = None, propMinimum = Some 1, propMaximum = Some 1000\<rparr>],
       required = [''symbol'', ''interval'']\<rparr>,
      \<lparr>toolName = ''get_price_history'',
       toolDescription = ''Get historical price data with OHLCV information'',
       properties =
         [symbolProperty,
          \<lparr>propName = ''interval'', propType = ''string'',
           propDescription = ''Timeframe interval (15m, 1h, 4h, 1d, etc.)'',
           propEnum = None, propMinimum = None, propMaximum = None\<rparr>,
          \<lparr>propName = ''limit'', propType = ''number'',
           propDescription = ''Number of data points to return (default: 24)'',
           propEnum = None, propMinimum = Some 1, propMaximum = Some 1000\<rparr>],
       required = [''symbol'', ''interval'']\<rparr>]"

text \<open>
  The \<^verbatim>\<open>switch (name)\<close> of the handler of \<^verbatim>\<open>CallToolRequestSchema\<close>, the body of its
  \<^verbatim>\<open>try\<close>.
\<close>

definition switchName ::
  "host \<Rightarrow> source \<Rightarrow> string \<Rightarrow> (string \<times> jsval) list \<Rightarrow> toolResult handled" where
  "switchName h src name args =
     (if name = ''get_current_price'' then getCurrentPrice h src (arg args ''symbol'')
      else if name = ''get_24hr_ticker'' then get24hrTicker h src (arg args ''symbol'')
      else if name = ''get_kline_data'' then
        getKlineData h src (arg args ''symbol'') (arg args ''interval'')
          (jsOr (arg args ''limit'') (JNum (Fin 100)))
      else if name = ''get_price_history'' then
        getPriceHistory h src (arg args ''symbol'') (arg args ''interval'')
          (jsOr (arg args ''limit'') (JNum (Fin 24)))
      else ([], Inl (JsError (''Unknown tool: '' @ name))))"

text \<open>
  The handler of \<^verbatim>\<open>CallToolRequestSchema\<close>. \<open>arguments\<close> is \<open>None\<close> when the request
  carries no \<^verbatim>\<open>arguments\<close>. The check \<^verbatim>\<open>if (!args) throw ...\<close> stands before the
  \<^verbatim>\<open>try\<close>; the \<^verbatim>\<open>catch\<close> turns what the \<^verbatim>\<open>switch\<close> throws into a reply. \<open>Inl\<close> in
  the result is an error that leaves the handler.
\<close>

definition callTool ::
  "host \<Rightarrow> source \<Rightarrow> string \<Rightarrow> (string \<times> jsval) list option \<Rightarrow> toolResult handled" where
  "callTool h src name arguments =
     (case arguments of
        None \<Rightarrow> ([], Inl (JsError ''Missing arguments''))
      | Some args \<Rightarrow>
          (case switchName h src name args of
             (reqs, Inl e) \<Rightarrow> (reqs, Inr (textResult (''Error: '' @ errorMessage h e)))
           | (reqs, Inr r) \<Rightarrow> (reqs, Inr r)))"

subsection \<open>A host and a mocked exchange for the examples\<close>

text \<open>
  \<open>exampleHost\<close> formats numbers as the locale \<^verbatim>\<open>en-US\<close> does. Its other fields are
  stand-ins: no example below reaches them. \<open>mockSource body\<close> answers every request
  with \<open>body\<close>.
\<close>

definition exampleHost :: host where
  "exampleHost =
     \<lparr>numberToString = (\<lambda>q. ''?''),
      numberToLocaleString = toLocaleString_enUS,
      dateToLocaleString = (\<lambda>iso. iso),
      dateParse = (\<lambda>s. NaN),
      engineMessage = (\<lambda>f. ''TypeError'')\<rparr>"

definition mockSource :: "jsval \<Rightarrow> source" where
  "mockSource body = (\<lambda>req. Inr body)"

text \<open>The two-candle series and the ticker body of the examples.\<close>

definition twoCandles :: jsval where
  "twoCandles =
     JArr [JArr [JNum (Fin 0), JStr ''100'', JStr ''110'', JStr ''90'', JStr ''105'', JStr ''10''],
           JArr [JNum (Fin 60000), JStr ''105'', JStr ''115'', JStr ''95'', JStr ''110'',
                 JStr ''12'']]"

definition tickerBTCUSDT :: jsval where
  "tickerBTCUSDT =
     JObj [(''symbol'', JStr ''BTCUSDT''), (''priceChange'', JStr ''-94.99999800''),
           (''priceChangePercent'', JStr ''-95.960''), (''lastPrice'', JStr ''4.00000200''),
           (''highPrice'', JStr ''100.00000000''), (''lowPrice'', JStr ''0.10000000''),
           (''volume'', JStr ''8913.30000000''), (''quoteVolume'', JStr ''15.30000000'')]"

subsection \<open>What a request carries\<close>

text \<open>
  The limit of a request is a number between 1 and 1000, the bounds that the input
  schemas of \<open>listTools\<close> declare; the interval of a request is one of \<open>intervalEnum\<close>.
\<close>

definition limitInBounds :: "request \<Rightarrow> bool" where
  "limitInBounds req =
     (case map_of (params req) ''limit'' of
        Some (JNum (Fin q)) \<Rightarrow> 1 \<le> q \<and> q \<le> 1000
      | _ \<Rightarrow> False)"

definition intervalListed :: "request \<Rightarrow> bool" where
  "intervalListed req =
     (case map_of (params req) ''interval'' of
        Some (JStr s) \<Rightarrow> s \<in> set intervalEnum
      | _ \<Rightarrow> False)"


section \<open>Properties\<close>

subsection \<open>Lemmas about the model\<close>

lemma bindE_Inr_iff: "bindE m f = Inr r \<longleftrightarrow> (\<exists>v. m = Inr v \<and> f v = Inr r)"
  by (cases m) (simp_all add: bindE_def)

lemma rethrow_Inr_iff: "rethrow h p m = Inr r \<longleftrightarrow> m = Inr r"
  by (cases m) (simp_all add: rethrow_def)

lemma rethrow_Inl: "rethrow h p (Inl e) = Inl (JsError (p @ errorMessage h e))"
  by (simp add: rethrow_def)

lemma floor_rat_numeral:
  "\<lfloor>(numeral a :: rat) / numeral b\<rfloor> = numeral a div numeral b"
  using floor_divide_of_int_eq [of "numeral a" "numeral b", where ?'a = rat] by simp

lemmas parse_defs = parseFloatStr_def signOf_def isWhite_def isDigit_def natOfDigits_def
  digitVal_def exponentOf_def scale10_def

lemmas enUS_defs = toLocaleString_enUS_def groupThousands_def stripZeros_def pad_def
  showNat.simps floor_rat_numeral

lemma parse_65000: "parseFloatStr ''65000.5'' = Fin (130001 / 2)"
  by (simp add: parse_defs)

lemma enUS_65000: "toLocaleString_enUS (Fin (130001 / 2)) = ''65,000.5''"
  by (simp add: enUS_defs)

lemma upper_btcusdt: "toUpperCase ''btcusdt'' = ''BTCUSDT''"
  by (simp add: toUpperCase_def toUpperChar_def)

lemma example_current_price:
  "callTool exampleHost
     (mockSource (JObj [(''symbol'', JStr ''BTCUSDT''), (''price'', JStr ''65000.5'')]))
     ''get_current_price'' (Some [(''symbol'', JStr ''btcusdt'')]) =
   ([\<lparr>url = ''https://api.binance.com/api/v3/ticker/price'',
      params = [(''symbol'', JStr ''BTCUSDT'')]\<rparr>],
    Inr (textResult ''Current price for BTCUSDT: $65,000.5''))"
  by (simp add: callTool_def switchName_def arg_def getCurrentPrice_def callToUpperCase_def
      upper_btcusdt mockSource_def bindE_def currentPriceReply_def getProp_def parseFloat_def
      parse_65000 enUS_65000 exampleHost_def rethrow_def baseURL_def)

lemma currentPriceReply_text: "currentPriceReply h data = Inr r \<Longrightarrow> \<exists>t. r = textResult t"
  unfolding currentPriceReply_def bindE_Inr_iff by blast

lemma tickerReply_text: "tickerReply h data = Inr r \<Longrightarrow> \<exists>t. r = textResult t"
  unfolding tickerReply_def bindE_Inr_iff by blast

lemma klineReply_text: "klineReply h u i l data = Inr r \<Longrightarrow> \<exists>t. r = textResult t"
  by (auto simp: klineReply_def bindE_Inr_iff Let_def split: if_splits)

lemma historyReply_text: "historyReply h u i l data = Inr r \<Longrightarrow> \<exists>t. r = textResult t"
  by (auto simp: historyReply_def bindE_Inr_iff Let_def split: if_splits)

lemma getCurrentPrice_text:
  "getCurrentPrice h src s = (reqs, Inr r) \<Longrightarrow> \<exists>t. r = textResult t"
  unfolding getCurrentPrice_def Let_def
  by (auto split: sum.splits simp: rethrow_Inr_iff bindE_Inr_iff dest: currentPriceReply_text)

lemma get24hrTicker_text:
  "get24hrTicker h src s = (reqs, Inr r) \<Longrightarrow> \<exists>t. r = textResult t"
  unfolding get24hrTicker_def Let_def
  by (auto split: sum.splits simp: rethrow_Inr_iff bindE_Inr_iff dest: tickerReply_text)

lemma getKlineData_text:
  "getKlineData h src s i l = (reqs, Inr r) \<Longrightarrow> \<exists>t. r = textResult t"
  unfolding getKlineData_def Let_def
  by (auto split: sum.splits simp: rethrow_Inr_iff bindE_Inr_iff dest: klineReply_text)

lemma getPriceHistory_text:
  "getPriceHistory h src s i l = (reqs, Inr r) \<Longrightarrow> \<exists>t. r = textResult t"
  unfolding getPriceHistory_def Let_def
  by (auto split: sum.splits simp: rethrow_Inr_iff bindE_Inr_iff dest: historyReply_text)

lemma switchName_text:
  "switchName h src name args = (reqs, Inr r) \<Longrightarrow> \<exists>t. r = textResult t"
  unfolding switchName_def
  by (auto split: if_splits
      dest: getCurrentPrice_text get24hrTicker_text getKlineData_text getPriceHistory_text)

lemma klines_requests_kline:
  "fst (getKlineData h src symbol interval limit) =
     (case callToUpperCase symbol of
        Inl e \<Rightarrow> []
      | Inr u \<Rightarrow> [\<lparr>url = baseURL @ ''/klines'',
                   params = [(''symbol'', JStr u), (''interval'', interval), (''limit'', limit)]\<rparr>])"
  by (simp add: getKlineData_def Let_def split: sum.splits)

lemma klines_requests_history:
  "fst (getPriceHistory h src symbol interval limit) =
     (case callToUpperCase symbol of
        Inl e \<Rightarrow> []
      | Inr u \<Rightarrow> [\<lparr>url = baseURL @ ''/klines'',
                   params = [(''symbol'', JStr u), (''interval'', interval), (''limit'', limit)]\<rparr>])"
  by (simp add: getPriceHistory_def Let_def split: sum.splits)

lemma fst_callTool: "fst (callTool h src name (Some args)) = fst (switchName h src name args)"
  by (simp add: callTool_def split: prod.splits sum.splits)

lemma candle_requests:
  "name = ''get_kline_data'' \<or> name = ''get_price_history'' \<Longrightarrow>
   callToUpperCase (arg args ''symbol'') = Inr u \<Longrightarrow>
   fst (callTool h src name (Some args)) =
     [\<lparr>url = baseURL @ ''/klines'',
       params = [(''symbol'', JStr u), (''interval'', arg args ''interval''),
                 (''limit'', jsOr (arg args ''limit'')
                     (JNum (Fin (if name = ''get_kline_data'' then 100 else 24))))]\<rparr>]"
  by (auto simp: fst_callTool switchName_def klines_requests_kline klines_requests_history)

lemma upper_BTCUSDT: "callToUpperCase (JStr ''BTCUSDT'') = Inr ''BTCUSDT''"
  by (simp add: callToUpperCase_def toUpperCase_def toUpperChar_def)

lemma noData_empty: "noData (JArr [])"
  by (simp add: noData_def getProp_def)

lemma snd_callTool:
  "snd (callTool h src name (Some args)) =
     (case snd (switchName h src name args) of
        Inl e \<Rightarrow> Inr (textResult (''Error: '' @ errorMessage h e))
      | Inr r \<Rightarrow> Inr r)"
  by (simp add: callTool_def split: prod.splits sum.splits)

lemma getKlineData_empty:
  "callToUpperCase symbol = Inr u \<Longrightarrow> \<forall>req. src req = Inr (JArr []) \<Longrightarrow>
   snd (getKlineData h src symbol interval limit) =
     Inl (JsError ''Failed to fetch kline data: No kline data received'')"
  by (simp add: getKlineData_def Let_def bindE_def klineReply_def noData_empty rethrow_def
      errorMessage_def)

lemma getPriceHistory_empty:
  "callToUpperCase symbol = Inr u \<Longrightarrow> \<forall>req. src req = Inr (JArr []) \<Longrightarrow>
   snd (getPriceHistory h src symbol interval limit) =
     Inl (JsError ''Failed to fetch price history: No historical data received'')"
  by (simp add: getPriceHistory_def Let_def bindE_def historyReply_def noData_empty rethrow_def
      errorMessage_def)

lemma klineReply_nonempty:
  "klineReply h u i l data = Inr r \<Longrightarrow> \<exists>ks. data = JArr ks \<and> ks \<noteq> []"
  by (cases data)
     (auto simp: klineReply_def bindE_Inr_iff lastKlines_def noData_empty split: if_splits)

lemma historyReply_nonempty:
  "historyReply h u i l data = Inr r \<Longrightarrow> \<exists>ks. data = JArr ks \<and> ks \<noteq> []"
  by (cases data)
     (auto simp: historyReply_def bindE_Inr_iff historicalData_def noData_empty split: if_splits)

lemma getKlineData_success:
  "getKlineData h src symbol interval limit = (reqs, Inr r) \<Longrightarrow>
   \<exists>req ks. reqs = [req] \<and> src req = Inr (JArr ks) \<and> ks \<noteq> []"
  by (auto simp: getKlineData_def Let_def rethrow_Inr_iff bindE_Inr_iff
      split: sum.splits dest!: klineReply_nonempty)

lemma getPriceHistory_success:
  "getPriceHistory h src symbol interval limit = (reqs, Inr r) \<Longrightarrow>
   \<exists>req ks. reqs = [req] \<and> src req = Inr (JArr ks) \<and> ks \<noteq> []"
  by (auto simp: getPriceHistory_def Let_def rethrow_Inr_iff bindE_Inr_iff
      split: sum.splits dest!: historyReply_nonempty)





lemma assetLabel_BTCUSDT: "assetLabel ''BTCUSDT'' = []"
  by (simp add: assetLabel_def)

lemma ticker_numbers:
  "parseFloatStr ''-94.99999800'' = Fin (- (47499999 / 500000))"
  "parseFloatStr ''-95.960'' = Fin (- (2399 / 25))"
  "parseFloatStr ''4.00000200'' = Fin (2000001 / 500000)"
  "parseFloatStr ''100.00000000'' = Fin 100"
  "parseFloatStr ''0.10000000'' = Fin (1 / 10)"
  "parseFloatStr ''8913.30000000'' = Fin (89133 / 10)"
  "parseFloatStr ''15.30000000'' = Fin (153 / 10)"
  by (simp_all add: parse_defs)

lemma ticker_formats:
  "toLocaleString_enUS (Fin (2000001 / 500000)) = ''4''"
  "toLocaleString_enUS (Fin 100) = ''100''"
  "toLocaleString_enUS (Fin (1 / 10)) = ''0.1''"
  "toLocaleString_enUS (Fin (89133 / 10)) = ''8,913.3''"
  "toLocaleString_enUS (Fin (153 / 10)) = ''15.3''"
  by (simp_all add: enUS_defs)

lemma ticker_fixed:
  "toFixed h 4 (Fin (- (47499999 / 500000))) = ''-95.0000''"
  "toFixed h 2 (Fin (- (2399 / 25))) = ''-95.96''"
  by (simp_all add: toFixed_def pad_def showNat.simps floor_rat_numeral)

lemma ticker_signs:
  "plusSign (Fin (- (47499999 / 500000))) = []"
  "plusSign (Fin (- (2399 / 25))) = []"
  by (simp_all add: plusSign_def geZero_def)

lemma example_ticker:
  "callTool exampleHost (mockSource tickerBTCUSDT) ''get_24hr_ticker''
     (Some [(''symbol'', JStr ''BTCUSDT'')]) =
   ([\<lparr>url = ''https://api.binance.com/api/v3/ticker/24hr'',
      params = [(''symbol'', JStr ''BTCUSDT'')]\<rparr>],
    Inr (textResult
      (barChart @ '' BTCUSDT - 24hr Statistics:'' @ nl @
       ''            '' @ nl @
       moneyBag @ '' Current Price: $4'' @ nl @
       chartUp @ '' 24h Change: $-95.0000 (-95.96%)'' @ nl @
       upButton @ '' 24h High: $100'' @ nl @
       downButton @ '' 24h Low: $0.1'' @ nl @
       barChart @ '' 24h Volume: 8,913.3 '' @ nl @
       banknote @ '' Quote Volume: $15.3'')))"
  by (simp add: callTool_def switchName_def arg_def get24hrTicker_def upper_BTCUSDT
      mockSource_def tickerBTCUSDT_def bindE_def tickerReply_def parseField_def getProp_def
      parseFloat_def ticker_numbers ticker_formats ticker_fixed ticker_signs callReplace_def
      assetLabel_BTCUSDT exampleHost_def rethrow_def baseURL_def)




























text \<open>What the tool list declares: the four names, the bounds of \<open>limit\<close>, the enumeration of \<open>interval\<close>.\<close>

lemma tool_names:
  "map toolName listTools =
     [''get_current_price'', ''get_24hr_ticker'', ''get_kline_data'', ''get_price_history'']"
  by (simp add: listTools_def)

lemma schema_limit_bounds:
  "map (\<lambda>t. (toolName t,
        map (\<lambda>p. (propMinimum p, propMaximum p))
          (filter (\<lambda>p. propName p = ''limit'') (properties t)))) listTools =
     [(''get_current_price'', []), (''get_24hr_ticker'', []),
      (''get_kline_data'', [(Some 1, Some 1000)]),
      (''get_price_history'', [(Some 1, Some 1000)])]"
  by (simp add: listTools_def symbolProperty_def)

lemma schema_interval_enum:
  "map (\<lambda>t. (toolName t,
        map propEnum (filter (\<lambda>p. propName p = ''interval'') (properties t)))) listTools =
     [(''get_current_price'', []), (''get_24hr_ticker'', []),
      (''get_kline_data'', [Some intervalEnum]),
      (''get_price_history'', [None])]"
  by (simp add: listTools_def symbolProperty_def)

subsection \<open>The claims\<close>

text \<open>
  C1, as the specification states it: an invocation without arguments is answered with
  the text reply \<^verbatim>\<open>Error: Missing arguments\<close>. The code does otherwise: for
  \<^verbatim>\<open>get_current_price\<close> without arguments the handler ends in the error
  \<^verbatim>\<open>Missing arguments\<close> and returns no reply.
\<close>

theorem C1_counterexample:
  "snd (callTool exampleHost (mockSource JNull) ''get_current_price'' None) =
     Inl (JsError ''Missing arguments'') \<and>
   snd (callTool exampleHost (mockSource JNull) ''get_current_price'' None) \<noteq>
     Inr (textResult ''Error: Missing arguments'')"
  by (simp add: callTool_def)

text \<open>
  C1, amended: for every tool invocation whose arguments mapping is absent, whatever
  the tool name, the dispatch sends no outbound request and raises an error whose
  message is exactly \<^verbatim>\<open>Missing arguments\<close>. The check stands before the \<^verbatim>\<open>try\<close> block,
  so the error leaves the handler and is not converted into a text reply.
\<close>

theorem C1_missing_arguments_raised:
  "callTool h src name None = ([], Inl (JsError ''Missing arguments''))"
  by (simp add: callTool_def)

text \<open>
  C2, as the specification states it: the limit sent with a candle request lies in
  \<open>[1, 1000]\<close> whatever limit was supplied. The code does otherwise: \<^verbatim>\<open>get_kline_data\<close>
  with limit 5000 sends limit 5000.
\<close>

theorem C2_counterexample:
  "fst (callTool exampleHost (mockSource twoCandles) ''get_kline_data''
         (Some [(''symbol'', JStr ''BTCUSDT''), (''interval'', JStr ''1h''),
                (''limit'', JNum (Fin 5000))])) =
     [\<lparr>url = ''https://api.binance.com/api/v3/klines'',
       params = [(''symbol'', JStr ''BTCUSDT''), (''interval'', JStr ''1h''),
                 (''limit'', JNum (Fin 5000))]\<rparr>] \<and>
   \<not> limitInBounds
       \<lparr>url = ''https://api.binance.com/api/v3/klines'',
        params = [(''symbol'', JStr ''BTCUSDT''), (''interval'', JStr ''1h''),
                  (''limit'', JNum (Fin 5000))]\<rparr>"
  by (simp add: fst_callTool switchName_def klines_requests_kline arg_def upper_BTCUSDT
      jsOr_def truthy_def baseURL_def limitInBounds_def)

text \<open>
  C2, amended: for every invocation of \<^verbatim>\<open>get_kline_data\<close> or \<^verbatim>\<open>get_price_history\<close> with
  a symbol string and a truthy limit argument, one request is sent and its limit is the
  supplied limit, unchanged. No clamping is applied: the limit sent lies in
  \<open>[1, 1000]\<close> exactly when the supplied limit is a number in \<open>[1, 1000]\<close>.
\<close>

theorem C2_limit_passed_unchanged:
  "name = ''get_kline_data'' \<or> name = ''get_price_history'' \<Longrightarrow>
   callToUpperCase (arg args ''symbol'') = Inr u \<Longrightarrow>
   truthy (arg args ''limit'') \<Longrightarrow>
   (\<exists>req. fst (callTool h src name (Some args)) = [req] \<and>
      map_of (params req) ''limit'' = Some (arg args ''limit'') \<and>
      (limitInBounds req \<longleftrightarrow>
         (\<exists>q. arg args ''limit'' = JNum (Fin q) \<and> 1 \<le> q \<and> q \<le> 1000)))"
  by (auto simp: candle_requests jsOr_def limitInBounds_def split: jsval.splits jsnum.splits)

theorem C2_limit_passed_unchanged_witness:
  "(''get_kline_data'' = ''get_kline_data'' \<or> ''get_kline_data'' = ''get_price_history'') \<and>
   callToUpperCase (arg [(''symbol'', JStr ''BTCUSDT''), (''interval'', JStr ''1h''),
       (''limit'', JNum (Fin 50))] ''symbol'') = Inr ''BTCUSDT'' \<and>
   truthy (arg [(''symbol'', JStr ''BTCUSDT''), (''interval'', JStr ''1h''),
       (''limit'', JNum (Fin 50))] ''limit'') \<and>
   (\<exists>req. fst (callTool exampleHost (mockSource twoCandles) ''get_kline_data''
             (Some [(''symbol'', JStr ''BTCUSDT''), (''interval'', JStr ''1h''),
                    (''limit'', JNum (Fin 50))])) = [req] \<and>
      map_of (params req) ''limit'' = Some (JNum (Fin 50)) \<and> limitInBounds req)"
  using C2_limit_passed_unchanged [of "''get_kline_data''"
      "[(''symbol'', JStr ''BTCUSDT''), (''interval'', JStr ''1h''), (''limit'', JNum (Fin 50))]"
      "''BTCUSDT''" exampleHost "mockSource twoCandles"]
  by (simp add: arg_def upper_BTCUSDT truthy_def)

text \<open>
  C3, as the specification states it: an interval outside the enumerated set is never
  passed to the data source. The code does otherwise: \<^verbatim>\<open>get_kline_data\<close> with interval
  \<^verbatim>\<open>7m\<close> sends interval \<^verbatim>\<open>7m\<close>.
\<close>

theorem C3_counterexample:
  "fst (callTool exampleHost (mockSource twoCandles) ''get_kline_data''
         (Some [(''symbol'', JStr ''BTCUSDT''), (''interval'', JStr ''7m'')])) =
     [\<lparr>url = ''https://api.binance.com/api/v3/klines'',
       params = [(''symbol'', JStr ''BTCUSDT''), (''interval'', JStr ''7m''),
                 (''limit'', JNum (Fin 100))]\<rparr>] \<and>
   \<not> intervalListed
       \<lparr>url = ''https://api.binance.com/api/v3/klines'',
        params = [(''symbol'', JStr ''BTCUSDT''), (''interval'', JStr ''7m''),
                  (''limit'', JNum (Fin 100))]\<rparr>"
  by (simp add: fst_callTool switchName_def klines_requests_kline arg_def upper_BTCUSDT
      jsOr_def truthy_def baseURL_def intervalListed_def intervalEnum_def)

text \<open>
  C3, amended: for every invocation of \<^verbatim>\<open>get_kline_data\<close> or \<^verbatim>\<open>get_price_history\<close> with
  a symbol string, one request is sent and its interval is the supplied interval
  argument, unchanged. There is no check against the enumerated set: the interval sent
  is one of the set exactly when the supplied interval is.
\<close>

theorem C3_interval_passed_unchanged:
  "name = ''get_kline_data'' \<or> name = ''get_price_history'' \<Longrightarrow>
   callToUpperCase (arg args ''symbol'') = Inr u \<Longrightarrow>
   (\<exists>req. fst (callTool h src name (Some args)) = [req] \<and>
      map_of (params req) ''interval'' = Some (arg args ''interval'') \<and>
      (intervalListed req \<longleftrightarrow>
         (\<exists>s. arg args ''interval'' = JStr s \<and> s \<in> set intervalEnum)))"
  by (auto simp: candle_requests intervalListed_def split: jsval.splits)

theorem C3_interval_passed_unchanged_witness:
  "(''get_price_history'' = ''get_kline_data'' \<or> ''get_price_history'' = ''get_price_history'') \<and>
   callToUpperCase (arg [(''symbol'', JStr ''BTCUSDT''), (''interval'', JStr ''4h'')] ''symbol'') =
     Inr ''BTCUSDT'' \<and>
   (\<exists>req. fst (callTool exampleHost (mockSource twoCandles) ''get_price_history''
             (Some [(''symbol'', JStr ''BTCUSDT''), (''interval'', JStr ''4h'')])) = [req] \<and>
      map_of (params req) ''interval'' = Some (JStr ''4h'') \<and> intervalListed req)"
  using C3_interval_passed_unchanged [of "''get_price_history''"
      "[(''symbol'', JStr ''BTCUSDT''), (''interval'', JStr ''4h'')]"
      "''BTCUSDT''" exampleHost "mockSource twoCandles"]
  by (simp add: arg_def upper_BTCUSDT intervalEnum_def)

text \<open>
  C4: the label after the 24h volume should be the symbol without its quote currency,
  \<^verbatim>\<open>BTC\<close> for \<^verbatim>\<open>BTCUSDT\<close>. The code chains four replacements, and the third removes
  the base asset that the first has just uncovered: for \<^verbatim>\<open>BTCUSDT\<close> (and \<^verbatim>\<open>ETHBTC\<close>) the
  label is empty, and for \<^verbatim>\<open>BTCEUR\<close> it is \<^verbatim>\<open>EUR\<close>. The reply to \<^verbatim>\<open>get_24hr_ticker\<close> for
  \<^verbatim>\<open>BTCUSDT\<close> ends its volume line with the figure and a blank.
\<close>

theorem C4_asset_label_of_BTCUSDT:
  "assetLabel ''BTCUSDT'' = [] \<and>
   assetLabel ''ETHBTC'' = [] \<and>
   assetLabel ''BTCEUR'' = ''EUR'' \<and>
   assetLabel ''ADAUSDT'' = ''ADA'' \<and>
   callTool exampleHost (mockSource tickerBTCUSDT) ''get_24hr_ticker''
     (Some [(''symbol'', JStr ''BTCUSDT'')]) =
   ([\<lparr>url = ''https://api.binance.com/api/v3/ticker/24hr'',
      params = [(''symbol'', JStr ''BTCUSDT'')]\<rparr>],
    Inr (textResult
      (barChart @ '' BTCUSDT - 24hr Statistics:'' @ nl @
       ''            '' @ nl @
       moneyBag @ '' Current Price: $4'' @ nl @
       chartUp @ '' 24h Change: $-95.0000 (-95.96%)'' @ nl @
       upButton @ '' 24h High: $100'' @ nl @
       downButton @ '' 24h Low: $0.1'' @ nl @
       barChart @ '' 24h Volume: 8,913.3 '' @ nl @
       banknote @ '' Quote Volume: $15.3'')))"
  using example_ticker by (simp add: assetLabel_def)



text \<open>
  C6: when the data source answers with an empty series, \<^verbatim>\<open>get_kline_data\<close> replies
  \<^verbatim>\<open>Error: Failed to fetch kline data: No kline data received\<close> and
  \<^verbatim>\<open>get_price_history\<close> replies
  \<^verbatim>\<open>Error: Failed to fetch price history: No historical data received\<close>; and whenever
  one of the two handlers succeeds, the series the data source returned is a non-empty
  array.
\<close>

theorem C6_empty_series_is_failure:
  "(callToUpperCase (arg args ''symbol'') = Inr u \<and> (\<forall>req. src req = Inr (JArr [])) \<longrightarrow>
      snd (callTool h src ''get_kline_data'' (Some args)) =
        Inr (textResult ''Error: Failed to fetch kline data: No kline data received'') \<and>
      snd (callTool h src ''get_price_history'' (Some args)) =
        Inr (textResult ''Error: Failed to fetch price history: No historical data received'')) \<and>
   (getKlineData h src symbol interval limit = (reqs, Inr r) \<longrightarrow>
      (\<exists>req ks. reqs = [req] \<and> src req = Inr (JArr ks) \<and> ks \<noteq> [])) \<and>
   (getPriceHistory h src symbol interval limit = (reqs, Inr r) \<longrightarrow>
      (\<exists>req ks. reqs = [req] \<and> src req = Inr (JArr ks) \<and> ks \<noteq> []))"
proof (intro conjI impI)
  assume a: "callToUpperCase (arg args ''symbol'') = Inr u \<and> (\<forall>req. src req = Inr (JArr []))"
  then show "snd (callTool h src ''get_kline_data'' (Some args)) =
      Inr (textResult ''Error: Failed to fetch kline data: No kline data received'')"
    by (simp add: snd_callTool switchName_def getKlineData_empty errorMessage_def)
  from a show "snd (callTool h src ''get_price_history'' (Some args)) =
      Inr (textResult ''Error: Failed to fetch price history: No historical data received'')"
    by (simp add: snd_callTool switchName_def getPriceHistory_empty errorMessage_def)
next
  assume "getKlineData h src symbol interval limit = (reqs, Inr r)"
  then show "\<exists>req ks. reqs = [req] \<and> src req = Inr (JArr ks) \<and> ks \<noteq> []"
    by (rule getKlineData_success)
next
  assume "getPriceHistory h src symbol interval limit = (reqs, Inr r)"
  then show "\<exists>req ks. reqs = [req] \<and> src req = Inr (JArr ks) \<and> ks \<noteq> []"
    by (rule getPriceHistory_success)
qed

theorem C6_empty_series_is_failure_witness:
  "callToUpperCase (arg [(''symbol'', JStr ''BTCUSDT''), (''interval'', JStr ''1h'')] ''symbol'') =
     Inr ''BTCUSDT'' \<and>
   (\<forall>req. mockSource (JArr []) req = Inr (JArr [])) \<and>
   snd (callTool exampleHost (mockSource (JArr [])) ''get_kline_data''
         (Some [(''symbol'', JStr ''BTCUSDT''), (''interval'', JStr ''1h'')])) =
     Inr (textResult ''Error: Failed to fetch kline data: No kline data received'') \<and>
   snd (callTool exampleHost (mockSource (JArr [])) ''get_price_history''
         (Some [(''symbol'', JStr ''BTCUSDT''), (''interval'', JStr ''1h'')])) =
     Inr (textResult ''Error: Failed to fetch price history: No historical data received'')"
  using C6_empty_series_is_failure [of "[(''symbol'', JStr ''BTCUSDT''), (''interval'', JStr ''1h'')]"
      "''BTCUSDT''" "mockSource (JArr [])" exampleHost]
  by (simp add: arg_def upper_BTCUSDT mockSource_def)

text \<open>
  C7: when the limit argument is absent or falsy (and the symbol is a string, so that a
  request is sent), \<^verbatim>\<open>get_kline_data\<close> requests limit 100 and \<^verbatim>\<open>get_price_history\<close>
  requests limit 24.
\<close>

theorem C7_default_limit:
  "callToUpperCase (arg args ''symbol'') = Inr u \<Longrightarrow>
   map_of args ''limit'' = None \<or> \<not> truthy (arg args ''limit'') \<Longrightarrow>
   fst (callTool h src ''get_kline_data'' (Some args)) =
     [\<lparr>url = baseURL @ ''/klines'',
       params = [(''symbol'', JStr u), (''interval'', arg args ''interval''),
                 (''limit'', JNum (Fin 100))]\<rparr>] \<and>
   fst (callTool h src ''get_price_history'' (Some args)) =
     [\<lparr>url = baseURL @ ''/klines'',
       params = [(''symbol'', JStr u), (''interval'', arg args ''interval''),
                 (''limit'', JNum (Fin 24))]\<rparr>]"
proof -
  assume u: "callToUpperCase (arg args ''symbol'') = Inr u"
    and l: "map_of args ''limit'' = None \<or> \<not> truthy (arg args ''limit'')"
  from l have "\<not> truthy (arg args ''limit'')"
    by (auto simp: arg_def truthy_def)
  then have "jsOr (arg args ''limit'') d = d" for d
    by (simp add: jsOr_def)
  with u show ?thesis
    by (simp add: candle_requests)
qed

theorem C7_default_limit_witness:
  "callToUpperCase (arg [(''symbol'', JStr ''BTCUSDT''), (''interval'', JStr ''1h'')] ''symbol'') =
     Inr ''BTCUSDT'' \<and>
   map_of [(''symbol'', JStr ''BTCUSDT''), (''interval'', JStr ''1h'')] ''limit'' = None \<and>
   fst (callTool exampleHost (mockSource twoCandles) ''get_kline_data''
         (Some [(''symbol'', JStr ''BTCUSDT''), (''interval'', JStr ''1h'')])) =
     [\<lparr>url = ''https://api.binance.com/api/v3/klines'',
       params = [(''symbol'', JStr ''BTCUSDT''), (''interval'', JStr ''1h''),
                 (''limit'', JNum (Fin 100))]\<rparr>] \<and>
   fst (callTool exampleHost (mockSource twoCandles) ''get_price_history''
         (Some [(''symbol'', JStr ''BTCUSDT''), (''interval'', JStr ''1h'')])) =
     [\<lparr>url = ''https://api.binance.com/api/v3/klines'',
       params = [(''symbol'', JStr ''BTCUSDT''), (''interval'', JStr ''1h''),
                 (''limit'', JNum (Fin 24))]\<rparr>]"
  using C7_default_limit [of "[(''symbol'', JStr ''BTCUSDT''), (''interval'', JStr ''1h'')]"
      "''BTCUSDT''" exampleHost "mockSource twoCandles"]
  by (simp add: arg_def upper_BTCUSDT baseURL_def)



text \<open>
  C9: for every tool invocation whose name is none of the four registered names and
  whose arguments mapping is present, the dispatch returns the text reply
  \<^verbatim>\<open>Error: Unknown tool: <name>\<close>, and sends no outbound request.
\<close>

theorem C9_unknown_tool:
  "name \<notin> {''get_current_price'', ''get_24hr_ticker'', ''get_kline_data'',
            ''get_price_history''} \<Longrightarrow>
   callTool h src name (Some args) =
     ([], Inr (textResult (''Error: Unknown tool: '' @ name)))"
  by (simp add: callTool_def switchName_def errorMessage_def)

theorem C9_unknown_tool_witness:
  "''get_price'' \<notin> {''get_current_price'', ''get_24hr_ticker'', ''get_kline_data'',
                   ''get_price_history''} \<and>
   callTool exampleHost (mockSource JNull) ''get_price'' (Some [(''symbol'', JStr ''BTCUSDT'')]) =
     ([], Inr (textResult ''Error: Unknown tool: get_price''))"
  using C9_unknown_tool [of "''get_price''" exampleHost "mockSource JNull"
      "[(''symbol'', JStr ''BTCUSDT'')]"]
  by simp

text \<open>
  C10: every reply the dispatch returns, from a handler that succeeded or from the
  \<^verbatim>\<open>catch\<close> that converted an error, has a \<^verbatim>\<open>content\<close> of exactly one item, and the
  type of that item is \<^verbatim>\<open>text\<close>.
\<close>

theorem C10_reply_shape:
  "callTool h src name arguments = (reqs, Inr r) \<Longrightarrow>
     length (content r) = 1 \<and> itemType (hd (content r)) = ''text'' \<and>
     (\<exists>t. content r = [\<lparr>itemType = ''text'', itemText = t\<rparr>])"
proof -
  assume a: "callTool h src name arguments = (reqs, Inr r)"
  have "\<exists>t. r = textResult t"
  proof (cases arguments)
    case None
    with a show ?thesis by (simp add: callTool_def)
  next
    case (Some args)
    obtain qs m where sw: "switchName h src name args = (qs, m)"
      by (cases "switchName h src name args")
    show ?thesis
    proof (cases m)
      case (Inl e)
      with a Some sw show ?thesis by (auto simp: callTool_def)
    next
      case (Inr v)
      with a Some sw have "v = r" by (simp add: callTool_def)
      with sw Inr show ?thesis using switchName_text by blast
    qed
  qed
  then show ?thesis by (auto simp: textResult_def)
qed

theorem C10_reply_shape_witness:
  "callTool exampleHost
     (mockSource (JObj [(''symbol'', JStr ''BTCUSDT''), (''price'', JStr ''65000.5'')]))
     ''get_current_price'' (Some [(''symbol'', JStr ''btcusdt'')]) =
   ([\<lparr>url = ''https://api.binance.com/api/v3/ticker/price'',
      params = [(''symbol'', JStr ''BTCUSDT'')]\<rparr>],
    Inr (textResult ''Current price for BTCUSDT: $65,000.5'')) \<and>
   length (content (textResult ''Current price for BTCUSDT: $65,000.5'')) = 1 \<and>
   itemType (hd (content (textResult ''Current price for BTCUSDT: $65,000.5''))) = ''text''"
  using C10_reply_shape [OF example_current_price] example_current_price
  by simp

end
